theory Spec2Isabelle
  imports Main "HOL-Library.Sublist"
begin

section \<open>The update orchestrator of ublue-update: \<^verbatim>\<open>src/ublue_update/cli.py\<close>\<close>

text \<open>
  The orchestrator is a sequential Python program whose behaviour is a sequence of
  interactions with its surroundings: the login registry, the lock file, the
  notification daemon, the update tool, the logger.  The embedding makes that sequence
  explicit.  Every function of \<^verbatim>\<open>cli.py\<close> takes the history of interactions so far (a
  \<open>trace\<close>) and returns the extended history together with the way the function ended:
  it returned a value, it raised, or it terminated the process through \<^verbatim>\<open>os._exit\<close>.

  The collaborators that are imported by \<^verbatim>\<open>cli.py\<close> but are not part of it (the session
  resolver, the lock manager, the inhibitor and update checks, \<^verbatim>\<open>subprocess.run\<close>, the
  file system) are parameters of the model, collected in the record \<open>env\<close>.  Each of
  them may answer differently each time it is asked: it receives the history, so two
  calls at different moments are independent.  Each call is recorded in the trace
  together with the answer it gave.
\<close>

subsection \<open>Data\<close>

text \<open>One entry of \<^verbatim>\<open>get_active_sessions()\<close>: a dict with the keys \<^verbatim>\<open>"User"\<close> and \<^verbatim>\<open>"Name"\<close>.\<close>

record session =
  User :: nat
  Name :: string

text \<open>\<^verbatim>\<open>subprocess.CompletedProcess\<close>, with \<open>stdout\<close> holding the decoded text.\<close>

record completed =
  returncode :: int
  stdout :: string

datatype level = DEBUG | INFO | ERROR

text \<open>The exceptions that leave a function of \<^verbatim>\<open>cli.py\<close>.\<close>

datatype exn =
    Exception string
  | TypeError
  | AttributeError

text \<open>How a call ends.\<close>

datatype 'a result =
    Return 'a
  | Raise exn
  | Exit int

text \<open>
  The interactions.  A query carries the answer it received: \<open>None\<close> for the session
  resolver stands for the \<^verbatim>\<open>KeyError\<close> the source catches, \<open>None\<close> for \<open>AcquireLock\<close> for
  the null handle of a lock that is already held.
\<close>

datatype event =
    GetActiveSessions "session list option"
  | GetXdgRuntimeDir nat "string option"
  | SubprocessRun "string list" completed
  | Log level string
  | Print string
  | IsDir string bool
  | AcquireLock string "nat option"
  | ReleaseLock nat
  | TransactionWait
  | SystemUpdateCheck bool
  | PendingDeploymentCheck bool
  | CheckHardwareInhibitors bool "string list"

type_synonym trace = "event list"

text \<open>
  The surroundings.  \<open>dbus_notify\<close> is \<^verbatim>\<open>cfg.dbus_notify\<close> after the configuration was
  loaded, \<open>getuid\<close> is \<^verbatim>\<open>os.getuid()\<close>, \<open>environ_xdg_runtime_dir\<close> is
  \<^verbatim>\<open>os.environ.get("XDG_RUNTIME_DIR")\<close>; these three do not change during a run.  The
  others are the external calls, each a function of the history.  External calls are
  taken to return: \<^verbatim>\<open>subprocess.run\<close> yields a completed process whose output decodes,
  \<^verbatim>\<open>transaction_wait\<close> comes back.  The session resolver returns or raises the
  \<^verbatim>\<open>KeyError\<close> that the source catches; \<^verbatim>\<open>acquire_lock\<close> returns a handle or nothing.
\<close>

record env =
  dbus_notify :: bool
  getuid :: nat
  environ_xdg_runtime_dir :: "string option"
  isdir :: "trace \<Rightarrow> string \<Rightarrow> bool"
  get_active_sessions :: "trace \<Rightarrow> session list option"
  get_xdg_runtime_dir :: "trace \<Rightarrow> nat \<Rightarrow> string option"
  subprocess_run :: "trace \<Rightarrow> string list \<Rightarrow> completed"
  acquire_lock :: "trace \<Rightarrow> string \<Rightarrow> nat option"
  system_update_check :: "trace \<Rightarrow> bool"
  pending_deployment_check :: "trace \<Rightarrow> bool"
  check_hardware_inhibitors :: "trace \<Rightarrow> bool \<times> string list"

subsection \<open>Strings\<close>

text \<open>Python's \<^verbatim>\<open>needle in haystack\<close> on strings.\<close>

fun str_in :: "string \<Rightarrow> string \<Rightarrow> bool" where
  "str_in needle [] = (needle = [])"
| "str_in needle (c # cs) = (prefix needle (c # cs) \<or> str_in needle cs)"

text \<open>Python's \<^verbatim>\<open>sep.join(xs)\<close>.\<close>

fun join :: "string \<Rightarrow> string list \<Rightarrow> string" where
  "join sep [] = []"
| "join sep [x] = x"
| "join sep (x # y # ys) = x @ sep @ join sep (y # ys)"

text \<open>Python's \<^verbatim>\<open>str(n)\<close> on integers, as the f-string of the return code needs it.\<close>

fun str_nat :: "nat \<Rightarrow> string" where
  "str_nat n =
     (if n < 10 then [''0123456789'' ! n]
      else str_nat (n div 10) @ [''0123456789'' ! (n mod 10)])"

definition str_int :: "int \<Rightarrow> string" where
  "str_int i = (if i < 0 then CHR ''-'' # str_nat (nat (- i)) else str_nat (nat i))"

definition newline :: char where
  "newline = CHR 0x0A"

declare str_nat.simps [simp del]

subsection \<open>\<^verbatim>\<open>notify\<close> (lines 17-57)\<close>

text \<open>
  The loop over the sessions in the root branch (lines 38-55).  A session whose runtime
  directory is not found makes \<^verbatim>\<open>notify\<close> return at once (line 43); with a non-empty
  action list the first answer is returned (lines 53-54); when the loop runs out,
  \<^verbatim>\<open>notify\<close> returns nothing (line 55).
\<close>

fun notify_users ::
  "env \<Rightarrow> string list \<Rightarrow> string list \<Rightarrow> session list \<Rightarrow> trace \<Rightarrow> trace \<times> completed option"
where
  "notify_users e args actions [] tr = (tr, None)"
| "notify_users e args actions (user # users) tr =
     (case get_xdg_runtime_dir e tr (User user) of
        None \<Rightarrow>
          (tr @ [GetXdgRuntimeDir (User user) None,
                 Log ERROR (''failed to get xdg_runtime_dir for user: '' @ Name user)],
           None)
      | Some xdg_runtime_dir \<Rightarrow>
          (let tr1 = tr @ [GetXdgRuntimeDir (User user) (Some xdg_runtime_dir)];
               user_args =
                 [''/usr/bin/sudo'', ''-u'', Name user, ''DISPLAY=:0'',
                  ''DBUS_SESSION_BUS_ADDRESS=unix:path='' @ xdg_runtime_dir @ ''/bus'']
                 @ args;
               out = subprocess_run e tr1 user_args;
               tr2 = tr1 @ [SubprocessRun user_args out]
           in if actions \<noteq> [] then (tr2, Some out)
              else notify_users e args actions users tr2))"

text \<open>The argument vector of \<^verbatim>\<open>notify-send\<close> (lines 21-31).\<close>

definition notify_args :: "string \<Rightarrow> string \<Rightarrow> string list \<Rightarrow> string \<Rightarrow> string list" where
  "notify_args title body actions urgency =
     [''/usr/bin/notify-send'', title, body,
      ''--app-name=Universal Blue Updater'',
      ''--icon=software-update-available-symbolic'',
      ''--urgency='' @ urgency]
     @ (if actions \<noteq> [] then map (\<lambda>action. ''--action='' @ action) actions else [])"

definition notify ::
  "env \<Rightarrow> string \<Rightarrow> string \<Rightarrow> string list \<Rightarrow> string \<Rightarrow> trace \<Rightarrow> trace \<times> completed option"
where
  "notify e title body actions urgency tr =
     (if \<not> dbus_notify e then (tr, None)
      else
        let process_uid = getuid e;
            args = notify_args title body actions urgency
        in if process_uid = 0 then
             (case get_active_sessions e tr of
                None \<Rightarrow>
                  notify_users e args actions []
                    (tr @ [GetActiveSessions None,
                           Log ERROR ''failed to get active logind session info''])
              | Some users \<Rightarrow>
                  notify_users e args actions users (tr @ [GetActiveSessions (Some users)]))
           else
             (let out = subprocess_run e tr args
              in (tr @ [SubprocessRun args out], Some out)))"

subsection \<open>\<^verbatim>\<open>run_updates\<close> (lines 89-177)\<close>

text \<open>
  The choice of the lock file (lines 90-95).  \<^verbatim>\<open>os.path.isdir(None)\<close> raises a
  \<^verbatim>\<open>TypeError\<close>: that is what happens when the variable is not set.
\<close>

definition filelock_path :: "env \<Rightarrow> trace \<Rightarrow> trace \<times> string result" where
  "filelock_path e tr =
     (if getuid e \<noteq> 0 then
        (case environ_xdg_runtime_dir e of
           None \<Rightarrow> (tr, Raise TypeError)
         | Some xdg_runtime_dir \<Rightarrow>
             (let d = isdir e tr xdg_runtime_dir;
                  tr1 = tr @ [IsDir xdg_runtime_dir d]
              in if d then (tr1, Return (xdg_runtime_dir @ ''/ublue-update.lock''))
                 else (tr1, Return ''/run/ublue-update.lock'')))
      else (tr, Return ''/run/ublue-update.lock''))"

text \<open>The argument vectors of the two update passes (lines 119-123 and 147-157).\<close>

definition topgrade_system_args :: "string list" where
  "topgrade_system_args =
     [''/usr/bin/topgrade'', ''--config'', ''/usr/share/ublue-update/topgrade-system.toml'']"

definition topgrade_user_args :: "string \<Rightarrow> string \<Rightarrow> string list" where
  "topgrade_user_args name xdg_runtime_dir =
     [''/usr/bin/sudo'', ''-u'', name, ''DISPLAY=:0'',
      ''XDG_RUNTIME_DIR='' @ xdg_runtime_dir,
      ''DBUS_SESSION_BUS_ADDRESS=unix:path='' @ xdg_runtime_dir @ ''/bus'',
      ''/usr/bin/topgrade'', ''--config'', ''/usr/share/ublue-update/topgrade-user.toml'']"

text \<open>
  The loop over the sessions (lines 136-160).  A session whose runtime directory is not
  found ends the loop (\<^verbatim>\<open>break\<close>, line 141).  The status of a user's pass is not looked
  at.
\<close>

fun update_users :: "env \<Rightarrow> session list \<Rightarrow> trace \<Rightarrow> trace" where
  "update_users e [] tr = tr"
| "update_users e (user # users) tr =
     (case get_xdg_runtime_dir e tr (User user) of
        None \<Rightarrow>
          tr @ [GetXdgRuntimeDir (User user) None,
                Log ERROR (''failed to get xdg_runtime_dir for user: '' @ Name user)]
      | Some xdg_runtime_dir \<Rightarrow>
          (let tr1 = tr @ [GetXdgRuntimeDir (User user) (Some xdg_runtime_dir),
                           Log INFO (''Running update for user: '' @ [CHR 0x27] @ Name user
                                     @ [CHR 0x27])];
               args = topgrade_user_args (Name user) xdg_runtime_dir;
               out = subprocess_run e tr1 args;
               tr2 = tr1 @ [SubprocessRun args out, Log DEBUG (stdout out)]
           in update_users e users tr2))"

text \<open>
  The end of the root branch (lines 161-170): the completion message, the reboot
  prompt.  \<open>Return ()\<close> stands for going on to line 176.
\<close>

definition reboot_prompt :: "env \<Rightarrow> bool \<Rightarrow> trace \<Rightarrow> trace \<times> unit result" where
  "reboot_prompt e system_update_available tr =
     (let tr1 = tr @ [Log INFO ''System update complete''];
          pending = pending_deployment_check e tr1;
          tr2 = tr1 @ [PendingDeploymentCheck pending]
      in if pending \<and> system_update_available \<and> dbus_notify e then
           (case notify e ''System Updater''
                   ''System update complete, pending changes will take effect after reboot. Reboot now?''
                   [''universal-blue-update-reboot=Reboot Now''] ''normal'' tr2 of
              (tr3, None) \<Rightarrow> (tr3, Raise AttributeError)
            | (tr3, Some out) \<Rightarrow>
                if str_in ''universal-blue-update-reboot'' (stdout out) then
                  (let reboot = [''systemctl'', ''reboot'']
                   in (tr3 @ [SubprocessRun reboot (subprocess_run e tr3 reboot)], Return ()))
                else (tr3, Return ()))
         else (tr2, Return ()))"

text \<open>The root branch (lines 104-170).\<close>

definition run_updates_root :: "env \<Rightarrow> bool \<Rightarrow> bool \<Rightarrow> trace \<Rightarrow> trace \<times> unit result" where
  "run_updates_root e system system_update_available tr =
     (let tr1 = fst (notify e ''System Updater'' ''System passed checks, updating ...''
                       [] ''normal'' tr);
          sessions = get_active_sessions e tr1;
          tr2 = tr1 @ (case sessions of
                         None \<Rightarrow> [GetActiveSessions None,
                                  Log ERROR ''failed to get active logind session info'']
                       | Some us \<Rightarrow> [GetActiveSessions (Some us)]);
          users = (if system then [] else case sessions of None \<Rightarrow> [] | Some us \<Rightarrow> us);
          out = subprocess_run e tr2 topgrade_system_args;
          tr3 = tr2 @ [SubprocessRun topgrade_system_args out, Log DEBUG (stdout out)]
      in if returncode out \<noteq> 0 then
           (tr3 @ [Print (''topgrade returned code '' @ str_int (returncode out)
                          @ '', program output:''),
                   Print (stdout out)],
            Exit (returncode out))
         else reboot_prompt e system_update_available (update_users e users tr3))"

definition run_updates :: "env \<Rightarrow> bool \<Rightarrow> bool \<Rightarrow> trace \<Rightarrow> trace \<times> unit result" where
  "run_updates e system system_update_available tr =
     (case filelock_path e tr of
        (tr1, Raise x) \<Rightarrow> (tr1, Raise x)
      | (tr1, Exit n) \<Rightarrow> (tr1, Exit n)
      | (tr1, Return path) \<Rightarrow>
          (case acquire_lock e tr1 path of
             None \<Rightarrow>
               (tr1 @ [AcquireLock path None],
                Raise (Exception ''updates are already running for this user''))
           | Some fd \<Rightarrow>
               (let tr2 = tr1 @ [AcquireLock path (Some fd), TransactionWait] in
                case (if getuid e = 0 then run_updates_root e system system_update_available tr2
                      else if system then
                        (tr2, Raise (Exception
                           ''ublue-update needs to be run as root to perform system updates!''))
                      else (tr2, Return ())) of
                  (tr3, Return u) \<Rightarrow> (tr3 @ [ReleaseLock fd], Exit 0)
                | (tr3, Raise x) \<Rightarrow> (tr3, Raise x)
                | (tr3, Exit n) \<Rightarrow> (tr3, Exit n))))"

subsection \<open>The gate: \<^verbatim>\<open>ask_for_updates\<close>, \<^verbatim>\<open>hardware_inhibitor_checks_failed\<close>, \<^verbatim>\<open>main\<close>\<close>

text \<open>Lines 60-73.\<close>

definition ask_for_updates :: "env \<Rightarrow> bool \<Rightarrow> trace \<Rightarrow> trace \<times> unit result" where
  "ask_for_updates e system tr =
     (if \<not> dbus_notify e then (tr, Return ())
      else
        (case notify e ''System Updater''
                ''Update available, but system checks failed. Update now?''
                [''universal-blue-update-confirm=Confirm''] ''critical'' tr of
           (tr1, None) \<Rightarrow> (tr1, Return ())
         | (tr1, Some out) \<Rightarrow>
             if str_in ''universal-blue-update-confirm'' (stdout out)
             then run_updates e system True tr1
             else (tr1, Return ())))"

text \<open>Lines 76-86.  The message of the exception lists every failure.\<close>

definition gating_message :: "string list \<Rightarrow> string" where
  "gating_message failures =
     ''update failed to pass checks: '' @ [newline] @ '' - ''
     @ join ([newline] @ '' - '') failures"

definition hardware_inhibitor_checks_failed ::
  "env \<Rightarrow> string list \<Rightarrow> bool \<Rightarrow> bool \<Rightarrow> bool \<Rightarrow> trace \<Rightarrow> trace \<times> unit result"
where
  "hardware_inhibitor_checks_failed e failures hardware_check system_update_available system tr =
     (case (if system_update_available \<and> \<not> hardware_check then
              ask_for_updates e system
                (tr @ [Log INFO ''Harware checks failed, but update is available''])
            else (tr, Return ())) of
        (tr1, Return u) \<Rightarrow> (tr1, Raise (Exception (gating_message failures)))
      | (tr1, Raise x) \<Rightarrow> (tr1, Raise x)
      | (tr1, Exit n) \<Rightarrow> (tr1, Exit n))"

text \<open>The parsed command line (\<^verbatim>\<open>cli_args\<close>).\<close>

record cli_args =
  force :: bool
  check :: bool
  updatecheck :: bool
  wait :: bool
  config :: "string option"
  system :: bool

text \<open>
  Lines 188-251, after the command line was parsed and the configuration loaded.  The
  steps after the inhibitor checks (lines 244-251) are \<open>main_run\<close>.
\<close>

definition main_run :: "env \<Rightarrow> cli_args \<Rightarrow> bool \<Rightarrow> trace \<Rightarrow> trace \<times> unit result" where
  "main_run e cli system_update_available tr =
     (if updatecheck cli then
        (if \<not> system_update_available then (tr, Raise (Exception ''Update not available''))
         else (tr, Exit 0))
      else run_updates e (system cli) system_update_available
             (tr @ [Log INFO ''System passed all update checks'']))"

definition main :: "env \<Rightarrow> cli_args \<Rightarrow> trace \<Rightarrow> trace \<times> unit result" where
  "main e cli tr =
     (if wait cli then (tr @ [TransactionWait], Exit 0)
      else
        let system_update_available = system_update_check e tr;
            tr1 = tr @ [SystemUpdateCheck system_update_available]
        in if \<not> force cli \<and> \<not> updatecheck cli then
             (let (hardware_checks_failed, failures) = check_hardware_inhibitors e tr1;
                  tr2 = tr1 @ [CheckHardwareInhibitors hardware_checks_failed failures]
              in case (if hardware_checks_failed then
                         hardware_inhibitor_checks_failed e failures (check cli)
                           system_update_available (system cli) tr2
                       else (tr2, Return ())) of
                   (tr3, Return u) \<Rightarrow>
                     if check cli then (tr3, Exit 0)
                     else main_run e cli system_update_available tr3
                 | (tr3, Raise x) \<Rightarrow> (tr3, Raise x)
                 | (tr3, Exit n) \<Rightarrow> (tr3, Exit n))
           else main_run e cli system_update_available tr1)"

subsection \<open>Reading a trace\<close>

text \<open>
  The classes of events the statements below speak about.  A subprocess is recognised by
  its argument vector: the system pass is \<open>topgrade_system_args\<close>, a user's pass is
  \<open>topgrade_user_args\<close> for some name and directory.
\<close>

definition is_subprocess :: "event \<Rightarrow> bool" where
  "is_subprocess ev = (case ev of SubprocessRun argv out \<Rightarrow> True | _ \<Rightarrow> False)"


definition is_user_pass :: "event \<Rightarrow> bool" where
  "is_user_pass ev =
     (case ev of
        SubprocessRun argv out \<Rightarrow> argv = topgrade_user_args (argv ! 2) (drop 16 (argv ! 4))
      | _ \<Rightarrow> False)"

text \<open>An acquisition or a release of a lock.\<close>

definition is_lock_event :: "event \<Rightarrow> bool" where
  "is_lock_event ev =
     (case ev of AcquireLock p r \<Rightarrow> True | ReleaseLock fd \<Rightarrow> True | _ \<Rightarrow> False)"

text \<open>
  The events that a call of \<^verbatim>\<open>notify\<close> can add (\<open>notify_event\<close>), those of the end of
  the root branch (\<open>reboot_event\<close>), and those of the loop over the sessions
  (\<open>user_phase_event\<close>).
\<close>

definition notify_event :: "event \<Rightarrow> bool" where
  "notify_event ev =
     (case ev of
        GetActiveSessions r \<Rightarrow> True
      | GetXdgRuntimeDir u r \<Rightarrow> True
      | Log l m \<Rightarrow> True
      | SubprocessRun argv out \<Rightarrow>
          take 1 argv = [''/usr/bin/notify-send'']
          \<or> (take 1 argv = [''/usr/bin/sudo'']
              \<and> take 1 (drop 5 argv) = [''/usr/bin/notify-send''])
      | _ \<Rightarrow> False)"

definition reboot_event :: "event \<Rightarrow> bool" where
  "reboot_event ev =
     (case ev of
        PendingDeploymentCheck b \<Rightarrow> True
      | SubprocessRun argv out \<Rightarrow> argv = [''systemctl'', ''reboot''] \<or> notify_event ev
      | _ \<Rightarrow> notify_event ev)"

definition user_phase_event :: "event \<Rightarrow> bool" where
  "user_phase_event ev =
     (case ev of
        GetXdgRuntimeDir u r \<Rightarrow> True
      | Log l m \<Rightarrow> True
      | SubprocessRun argv out \<Rightarrow> is_user_pass ev
      | _ \<Rightarrow> False)"

text \<open>The release of a lock.\<close>

definition is_release :: "event \<Rightarrow> bool" where
  "is_release ev = (case ev of ReleaseLock fd \<Rightarrow> True | _ \<Rightarrow> False)"






text \<open>The argument vector of the escalation of \<^verbatim>\<open>ask_for_updates\<close> (lines 63-68).\<close>

definition escalation_args :: "string list" where
  "escalation_args =
     notify_args ''System Updater''
       ''Update available, but system checks failed. Update now?''
       [''universal-blue-update-confirm=Confirm''] ''critical''"

definition is_escalation :: "event \<Rightarrow> bool" where
  "is_escalation ev =
     (case ev of
        SubprocessRun argv out \<Rightarrow>
          argv = escalation_args
          \<or> (take 2 argv = [''/usr/bin/sudo'', ''-u''] \<and> drop 5 argv = escalation_args)
      | _ \<Rightarrow> False)"

text \<open>The answer to the escalation holds the confirm action (lines 69-72).\<close>

definition confirmed :: "completed option \<Rightarrow> bool" where
  "confirmed r =
     (case r of None \<Rightarrow> False
      | Some out \<Rightarrow> str_in ''universal-blue-update-confirm'' (stdout out))"

text \<open>
  The events of \<^verbatim>\<open>main\<close> up to the escalation, when an update is available and the
  inhibitor checks fail with the given reasons.
\<close>

definition gate_events :: "string list \<Rightarrow> trace" where
  "gate_events failures =
     [SystemUpdateCheck True, CheckHardwareInhibitors True failures,
      Log INFO ''Harware checks failed, but update is available'']"

subsection \<open>Sample surroundings\<close>

text \<open>Concrete sessions and surroundings, on which the statements below are run.\<close>

definition alice :: session where
  "alice = \<lparr>User = 1000, Name = ''alice''\<rparr>"

definition bob :: session where
  "bob = \<lparr>User = 1001, Name = ''bob''\<rparr>"

text \<open>Root, notifications off, one session; every subprocess ends with status 1.\<close>

definition env_system_pass_fails :: env where
  "env_system_pass_fails =
     \<lparr>dbus_notify = False, getuid = 0, environ_xdg_runtime_dir = None,
      isdir = (\<lambda>tr p. False),
      get_active_sessions = (\<lambda>tr. Some [alice]),
      get_xdg_runtime_dir = (\<lambda>tr u. Some ''/run/user/1000''),
      subprocess_run = (\<lambda>tr argv. \<lparr>returncode = 1, stdout = ''no network''\<rparr>),
      acquire_lock = (\<lambda>tr p. Some 3),
      system_update_check = (\<lambda>tr. True),
      pending_deployment_check = (\<lambda>tr. False),
      check_hardware_inhibitors = (\<lambda>tr. (False, []))\<rparr>"

text \<open>
  A user (uid 1000) whose runtime directory exists and whose lock is free.  Were a
  subprocess started, or a session looked up, it would succeed.
\<close>

definition env_user :: env where
  "env_user =
     \<lparr>dbus_notify = True, getuid = 1000, environ_xdg_runtime_dir = Some ''/run/user/1000'',
      isdir = (\<lambda>tr p. True),
      get_active_sessions = (\<lambda>tr. Some [alice]),
      get_xdg_runtime_dir = (\<lambda>tr u. Some ''/run/user/1000''),
      subprocess_run = (\<lambda>tr argv. \<lparr>returncode = 0, stdout = []\<rparr>),
      acquire_lock = (\<lambda>tr p. Some 3),
      system_update_check = (\<lambda>tr. True),
      pending_deployment_check = (\<lambda>tr. False),
      check_hardware_inhibitors = (\<lambda>tr. (False, []))\<rparr>"

text \<open>The same user while another instance holds the lock.\<close>

definition env_user_locked :: env where
  "env_user_locked = env_user\<lparr>acquire_lock := (\<lambda>tr p. None)\<rparr>"

text \<open>The same user when \<^verbatim>\<open>XDG_RUNTIME_DIR\<close> does not name a directory.\<close>

definition env_user_no_dir :: env where
  "env_user_no_dir = env_user\<lparr>isdir := (\<lambda>tr p. False)\<rparr>"



text \<open>No flag given on the command line.\<close>

definition cli_default :: cli_args where
  "cli_default =
     \<lparr>force = False, check = False, updatecheck = False, wait = False, config = None,
      system = False\<rparr>"

text \<open>
  User 1000 on battery and on a metered network: the inhibitor checks fail with two
  reasons, an update is available, and the user answers every notification with the
  confirm action.
\<close>

definition env_gate :: env where
  "env_gate =
     env_user
       \<lparr>subprocess_run :=
          (\<lambda>tr argv. \<lparr>returncode = 0, stdout = ''universal-blue-update-confirm''\<rparr>),
        check_hardware_inhibitors := (\<lambda>tr. (True, [''battery'', ''network'']))\<rparr>"

text \<open>The same checks failing for root while nobody is logged in.\<close>

definition env_gate_root :: env where
  "env_gate_root = env_gate\<lparr>getuid := 0, get_active_sessions := (\<lambda>tr. Some [])\<rparr>"

text \<open>
  Root with the sessions of alice and bob: alice lets the notification pass without
  choosing, bob would confirm.
\<close>

definition env_two_sessions :: env where
  "env_two_sessions =
     \<lparr>dbus_notify = True, getuid = 0, environ_xdg_runtime_dir = None,
      isdir = (\<lambda>tr p. False),
      get_active_sessions = (\<lambda>tr. Some [alice, bob]),
      get_xdg_runtime_dir = (\<lambda>tr u. if u = 1000 then Some ''/run/user/1000''
                                     else Some ''/run/user/1001''),
      subprocess_run =
        (\<lambda>tr argv. if ''bob'' \<in> set argv
                    then \<lparr>returncode = 0, stdout = ''universal-blue-update-confirm''\<rparr>
                    else \<lparr>returncode = 0, stdout = []\<rparr>),
      acquire_lock = (\<lambda>tr p. Some 3),
      system_update_check = (\<lambda>tr. True),
      pending_deployment_check = (\<lambda>tr. False),
      check_hardware_inhibitors = (\<lambda>tr. (False, []))\<rparr>"


section \<open>Properties\<close>

subsection \<open>The events of each phase\<close>


lemma user_phase_event_intros:
  "user_phase_event (GetXdgRuntimeDir u r)"
  "user_phase_event (Log l m)"
  "user_phase_event (SubprocessRun (topgrade_user_args name dir) out)"
  by (simp_all add: user_phase_event_def is_user_pass_def topgrade_user_args_def)

lemma notify_event_intros:
  "notify_event (GetActiveSessions s)"
  "notify_event (GetXdgRuntimeDir u r)"
  "notify_event (Log l m)"
  by (simp_all add: notify_event_def)



lemma notify_event_not_lock: "notify_event ev \<Longrightarrow> \<not> is_lock_event ev"
  by (cases ev) (auto simp: is_lock_event_def notify_event_def)

lemma notify_args_event:
  "notify_event (SubprocessRun (notify_args title body actions urgency) out)"
  "notify_event (SubprocessRun ([''/usr/bin/sudo'', a, b, c, d] @ notify_args title body actions urgency) out)"
  by (simp_all add: notify_event_def notify_args_def)

lemma notify_users_events:
  "\<exists>evs. fst (notify_users e (notify_args title body acts urgency) actions users tr) = tr @ evs
         \<and> list_all notify_event evs"
proof (induction users arbitrary: tr)
  case Nil
  show ?case by simp
next
  case (Cons user users)
  show ?case
  proof (cases "get_xdg_runtime_dir e tr (User user)")
    case None
    then show ?thesis by (simp add: notify_event_intros)
  next
    case (Some xdg)
    let ?tr1 = "tr @ [GetXdgRuntimeDir (User user) (Some xdg)]"
    let ?argv = "[''/usr/bin/sudo'', ''-u'', Name user, ''DISPLAY=:0'',
                  ''DBUS_SESSION_BUS_ADDRESS=unix:path='' @ xdg @ ''/bus'']
                 @ notify_args title body acts urgency"
    let ?tr2 = "?tr1 @ [SubprocessRun ?argv (subprocess_run e ?tr1 ?argv)]"
    obtain evs where evs: "fst (notify_users e (notify_args title body acts urgency) actions users ?tr2) = ?tr2 @ evs"
      "list_all notify_event evs"
      using Cons.IH [of ?tr2] by blast
    have two: "list_all notify_event [GetXdgRuntimeDir (User user) (Some xdg), SubprocessRun ?argv (subprocess_run e ?tr1 ?argv)]"
      using notify_args_event(2) by (simp add: notify_event_intros)
    show ?thesis
    proof (cases "actions = []")
      case True
      with Some evs two show ?thesis by (simp add: Let_def)
    next
      case False
      with Some two show ?thesis by (simp add: Let_def)
    qed
  qed
qed

lemma notify_events:
  "\<exists>evs. fst (notify e title body actions urgency tr) = tr @ evs \<and> list_all notify_event evs"
proof (cases "dbus_notify e")
  case False
  then show ?thesis by (simp add: notify_def)
next
  case True
  show ?thesis
  proof (cases "getuid e = 0")
    case False
    with True show ?thesis
      using notify_args_event(1) by (simp add: notify_def Let_def)
  next
    case root: True
    show ?thesis
    proof (cases "get_active_sessions e tr")
      case None
      with True root show ?thesis
        by (simp add: notify_def Let_def notify_event_intros)
    next
      case (Some users)
      let ?tr1 = "tr @ [GetActiveSessions (Some users)]"
      obtain evs where "fst (notify_users e (notify_args title body actions urgency) actions users ?tr1) = ?tr1 @ evs"
        "list_all notify_event evs"
        using notify_users_events by blast
      with True root Some show ?thesis
        by (simp add: notify_def Let_def notify_event_intros)
    qed
  qed
qed

lemma update_users_events:
  "\<exists>evs. update_users e users tr = tr @ evs \<and> list_all user_phase_event evs"
proof (induction users arbitrary: tr)
  case Nil
  show ?case by simp
next
  case (Cons user users)
  show ?case
  proof (cases "get_xdg_runtime_dir e tr (User user)")
    case None
    then show ?thesis by (simp add: user_phase_event_intros)
  next
    case (Some xdg)
    let ?tr1 = "tr @ [GetXdgRuntimeDir (User user) (Some xdg),
                           Log INFO (''Running update for user: '' @ [CHR 0x27] @ Name user
                                     @ [CHR 0x27])]"
    let ?argv = "topgrade_user_args (Name user) xdg"
    let ?out = "subprocess_run e ?tr1 ?argv"
    let ?tr2 = "?tr1 @ [SubprocessRun ?argv ?out, Log DEBUG (stdout ?out)]"
    obtain evs where evs: "update_users e users ?tr2 = ?tr2 @ evs" "list_all user_phase_event evs"
      using Cons.IH [of ?tr2] by blast
    from Some evs show ?thesis
      by (simp add: Let_def user_phase_event_intros)
  qed
qed


lemma reboot_event_intros:
  "notify_event ev \<Longrightarrow> reboot_event ev"
  "reboot_event (PendingDeploymentCheck b)"
  "reboot_event (SubprocessRun [''systemctl'', ''reboot''] out)"
  "reboot_event (Log l m)"
  by (cases ev) (simp_all add: reboot_event_def notify_event_def)

lemma list_all_reboot_event: "list_all notify_event evs \<Longrightarrow> list_all reboot_event evs"
  by (induction evs) (simp_all add: reboot_event_intros)



lemma reboot_event_not_lock: "reboot_event ev \<Longrightarrow> \<not> is_lock_event ev"
  using notify_event_not_lock [of ev]
  by (cases ev) (auto simp: reboot_event_def is_lock_event_def)


lemma user_phase_event_not_lock: "user_phase_event ev \<Longrightarrow> \<not> is_lock_event ev"
  by (cases ev) (auto simp: user_phase_event_def is_lock_event_def)

lemma notify_result:
  obtains evs r where "notify e title body actions urgency tr = (tr @ evs, r)"
    and "list_all notify_event evs"
proof -
  obtain evs where "fst (notify e title body actions urgency tr) = tr @ evs"
    and "list_all notify_event evs"
    using notify_events by blast
  then show ?thesis
    using that [of evs "snd (notify e title body actions urgency tr)"]
    by (metis prod.collapse)
qed

lemma reboot_prompt_result:
  obtains evs r where "reboot_prompt e available tr = (tr @ evs, r)"
    and "list_all reboot_event evs"
    and "r = Return () \<or> r = Raise AttributeError"
proof -
  let ?tr1 = "tr @ [Log INFO ''System update complete'']"
  let ?p = "pending_deployment_check e ?tr1"
  let ?tr2 = "?tr1 @ [PendingDeploymentCheck ?p]"
  show ?thesis
  proof (cases "?p \<and> available \<and> dbus_notify e")
    case False
    then have "reboot_prompt e available tr
                 = (tr @ [Log INFO ''System update complete'', PendingDeploymentCheck ?p], Return ())"
      by (auto simp: reboot_prompt_def Let_def)
    then show ?thesis
      using that by (simp add: reboot_event_intros)
  next
    case True
    obtain evs r where n: "notify e ''System Updater''
                   ''System update complete, pending changes will take effect after reboot. Reboot now?''
                   [''universal-blue-update-reboot=Reboot Now''] ''normal'' ?tr2 = (?tr2 @ evs, r)"
      and evs: "list_all notify_event evs"
      using notify_result by blast
    let ?pre = "[Log INFO ''System update complete'', PendingDeploymentCheck ?p] @ evs"
    have pre: "list_all reboot_event ?pre"
      using evs by (simp add: reboot_event_intros list_all_reboot_event)
    show ?thesis
    proof (cases r)
      case None
      with True n have "reboot_prompt e available tr = (tr @ ?pre, Raise AttributeError)"
        by (simp add: reboot_prompt_def Let_def)
      with pre show ?thesis using that by blast
    next
      case (Some out)
      show ?thesis
      proof (cases "str_in ''universal-blue-update-reboot'' (stdout out)")
        case False
        with True n Some have "reboot_prompt e available tr = (tr @ ?pre, Return ())"
          by (simp add: reboot_prompt_def Let_def)
        with pre show ?thesis using that by blast
      next
        case yes: True
        let ?r = "subprocess_run e (?tr2 @ evs) [''systemctl'', ''reboot'']"
        from True n Some yes
        have "reboot_prompt e available tr
                = (tr @ ?pre @ [SubprocessRun [''systemctl'', ''reboot''] ?r], Return ())"
          by (simp add: reboot_prompt_def Let_def)
        moreover have "list_all reboot_event (?pre @ [SubprocessRun [''systemctl'', ''reboot''] ?r])"
          using pre by (simp add: reboot_event_intros)
        ultimately show ?thesis using that by blast
      qed
    qed
  qed
qed


lemma run_updates_root_result:
  obtains (fatal) pre out where
      "list_all notify_event pre" and "returncode out \<noteq> 0"
      and "run_updates_root e s available tr =
             (tr @ pre @ [SubprocessRun topgrade_system_args out, Log DEBUG (stdout out),
                          Print (''topgrade returned code '' @ str_int (returncode out)
                                 @ '', program output:''),
                          Print (stdout out)],
              Exit (returncode out))"
  | (passed) pre out mid post r where
      "list_all notify_event pre" and "returncode out = 0"
      and "list_all user_phase_event mid" and "list_all reboot_event post"
      and "r = Return () \<or> r = Raise AttributeError"
      and "run_updates_root e s available tr =
             (tr @ pre @ [SubprocessRun topgrade_system_args out, Log DEBUG (stdout out)]
                 @ mid @ post, r)"
proof -
  obtain nevs where nevs:
      "fst (notify e ''System Updater'' ''System passed checks, updating ...'' [] ''normal'' tr)
         = tr @ nevs"
    and nevs_ok: "list_all notify_event nevs"
    using notify_events by blast
  define sessions where "sessions = get_active_sessions e (tr @ nevs)"
  define sevs where
    "sevs = (case sessions of
               None \<Rightarrow> [GetActiveSessions None,
                        Log ERROR ''failed to get active logind session info'']
             | Some us \<Rightarrow> [GetActiveSessions (Some us)])"
  define users where
    "users = (if s then [] else case sessions of None \<Rightarrow> [] | Some us \<Rightarrow> us)"
  define pre where "pre = nevs @ sevs"
  define out where "out = subprocess_run e (tr @ pre) topgrade_system_args"
  have pre_ok: "list_all notify_event pre"
    using nevs_ok by (cases sessions) (simp_all add: pre_def sevs_def notify_event_intros)
  let ?tr3 = "tr @ pre @ [SubprocessRun topgrade_system_args out, Log DEBUG (stdout out)]"
  have unfold: "run_updates_root e s available tr =
      (if returncode out \<noteq> 0 then
         (?tr3 @ [Print (''topgrade returned code '' @ str_int (returncode out)
                          @ '', program output:''),
                   Print (stdout out)],
          Exit (returncode out))
       else reboot_prompt e available (update_users e users ?tr3))"
    by (simp add: run_updates_root_def Let_def nevs sessions_def sevs_def users_def
          pre_def out_def)
  show ?thesis
  proof (cases "returncode out = 0")
    case False
    with unfold pre_ok show ?thesis using fatal [of pre out] by simp
  next
    case True
    obtain mid where mid: "update_users e users ?tr3 = ?tr3 @ mid"
      and mid_ok: "list_all user_phase_event mid"
      using update_users_events by blast
    obtain post r where post: "reboot_prompt e available (?tr3 @ mid) = ((?tr3 @ mid) @ post, r)"
      and post_ok: "list_all reboot_event post"
      and r: "r = Return () \<or> r = Raise AttributeError"
      using reboot_prompt_result by blast
    from True unfold mid post
    have "run_updates_root e s available tr =
             (tr @ pre @ [SubprocessRun topgrade_system_args out, Log DEBUG (stdout out)]
                 @ mid @ post, r)"
      by simp
    with pre_ok True mid_ok post_ok r show ?thesis
      using passed [of pre out mid post r] by blast
  qed
qed

subsection \<open>The shape of a run\<close>

lemma run_updates_as_root:
  assumes "getuid e = 0"
  shows "run_updates e s available tr =
     (case acquire_lock e tr ''/run/ublue-update.lock'' of
        None \<Rightarrow>
          (tr @ [AcquireLock ''/run/ublue-update.lock'' None],
           Raise (Exception ''updates are already running for this user''))
      | Some fd \<Rightarrow>
          (case run_updates_root e s available
                  (tr @ [AcquireLock ''/run/ublue-update.lock'' (Some fd), TransactionWait]) of
             (tr3, Return u) \<Rightarrow> (tr3 @ [ReleaseLock fd], Exit 0)
           | (tr3, Raise x) \<Rightarrow> (tr3, Raise x)
           | (tr3, Exit n) \<Rightarrow> (tr3, Exit n)))"
  using assms by (simp add: run_updates_def filelock_path_def Let_def split: option.splits)



lemma run_updates_as_user:
  assumes "getuid e \<noteq> 0"
  shows "run_updates e s available tr =
     (case environ_xdg_runtime_dir e of
        None \<Rightarrow> (tr, Raise TypeError)
      | Some d \<Rightarrow>
          (let path = (if isdir e tr d then d @ ''/ublue-update.lock''
                       else ''/run/ublue-update.lock'');
               tr1 = tr @ [IsDir d (isdir e tr d)]
           in case acquire_lock e tr1 path of
                None \<Rightarrow>
                  (tr1 @ [AcquireLock path None],
                   Raise (Exception ''updates are already running for this user''))
              | Some fd \<Rightarrow>
                  if s then
                    (tr1 @ [AcquireLock path (Some fd), TransactionWait],
                     Raise (Exception
                       ''ublue-update needs to be run as root to perform system updates!''))
                  else
                    (tr1 @ [AcquireLock path (Some fd), TransactionWait, ReleaseLock fd],
                     Exit 0)))"
  using assms by (simp add: run_updates_def filelock_path_def Let_def split: option.splits)

text \<open>A run only adds to the history.\<close>

lemma run_updates_extends: "\<exists>evs. fst (run_updates e s available tr) = tr @ evs"
proof (cases "getuid e = 0")
  case False
  then show ?thesis
    by (simp add: run_updates_as_user Let_def split: option.splits)
next
  case root: True
  show ?thesis
  proof (cases "acquire_lock e tr ''/run/ublue-update.lock''")
    case None
    with root show ?thesis
      by (simp add: run_updates_as_root)
  next
    case (Some fd)
    let ?tr2 = "tr @ [AcquireLock ''/run/ublue-update.lock'' (Some fd), TransactionWait]"
    show ?thesis
    proof (cases rule: run_updates_root_result [of e s available ?tr2])
      case (fatal pre out)
      with root Some show ?thesis
        by (simp add: run_updates_as_root)
    next
      case (passed pre out mid post r)
      from passed(5,6) root Some show ?thesis
        by (auto simp: run_updates_as_root)
    qed
  qed
qed

lemma no_lock_event_among:
  "list_all notify_event evs \<Longrightarrow> AcquireLock p r \<notin> set evs"
  "list_all user_phase_event evs \<Longrightarrow> AcquireLock p r \<notin> set evs"
  "list_all reboot_event evs \<Longrightarrow> AcquireLock p r \<notin> set evs"
  using notify_event_not_lock [of "AcquireLock p r"]
    user_phase_event_not_lock [of "AcquireLock p r"]
    reboot_event_not_lock [of "AcquireLock p r"]
  by (auto simp: list_all_iff is_lock_event_def)



lemma str_in_iff_sublist: "str_in needle hay \<longleftrightarrow> sublist needle hay"
  by (induction hay) (auto simp: sublist_Cons_right)

lemma join_holds_each: "f \<in> set fs \<Longrightarrow> sublist f (join sep fs)"
proof (induction sep fs rule: join.induct)
  case (1 sep)
  then show ?case by simp
next
  case (2 sep x)
  then show ?case by simp
next
  case (3 sep x y ys)
  show ?case
  proof (cases "f = x")
    case True
    then show ?thesis by simp
  next
    case False
    with 3 have "sublist f (join sep (y # ys))" by simp
    then obtain ps ss where "join sep (y # ys) = ps @ f @ ss"
      by (auto simp: sublist_def)
    then have "join sep (x # y # ys) = (x @ sep @ ps) @ f @ ss"
      by simp
    then show ?thesis
      unfolding sublist_def by blast
  qed
qed

lemma gating_message_holds_each:
  assumes "f \<in> set failures"
  shows "str_in f (gating_message failures)"
proof -
  from assms have "sublist f (join ([newline] @ '' - '') failures)"
    by (rule join_holds_each)
  then obtain ps ss where "join ([newline] @ '' - '') failures = ps @ f @ ss"
    unfolding sublist_def by blast
  then have "gating_message failures
               = (''update failed to pass checks: '' @ [newline] @ '' - '' @ ps) @ f @ ss"
    by (simp add: gating_message_def)
  then show ?thesis
    unfolding str_in_iff_sublist sublist_def by blast
qed

lemma run_updates_never_returns: "snd (run_updates e s available tr) \<noteq> Return u"
  by (auto simp: run_updates_def Let_def split: prod.splits result.splits option.splits)

lemma checks_failed_never_returns:
  "snd (hardware_inhibitor_checks_failed e failures c available s tr) \<noteq> Return u"
  by (auto simp: hardware_inhibitor_checks_failed_def split: prod.splits result.splits)

lemma main_checks_failed:
  assumes "\<not> wait cli" and "\<not> force cli" and "\<not> updatecheck cli"
    and "check_hardware_inhibitors e (tr @ [SystemUpdateCheck (system_update_check e tr)])
           = (True, failures)"
  shows "main e cli tr =
           hardware_inhibitor_checks_failed e failures (check cli) (system_update_check e tr)
             (system cli)
             (tr @ [SystemUpdateCheck (system_update_check e tr),
                    CheckHardwareInhibitors True failures])"
proof -
  let ?h = "hardware_inhibitor_checks_failed e failures (check cli) (system_update_check e tr)
             (system cli)
             (tr @ [SystemUpdateCheck (system_update_check e tr),
                    CheckHardwareInhibitors True failures])"
  obtain tr3 r where h: "?h = (tr3, r)"
    by (cases ?h)
  with checks_failed_never_returns [of e failures "check cli" "system_update_check e tr"
      "system cli" _ "()"]
  have "r \<noteq> Return ()"
    by (metis snd_conv)
  with assms h show ?thesis
    by (cases r) (simp_all add: main_def Let_def)
qed



lemma notify_as_root_with_actions:
  assumes "dbus_notify e" and "getuid e = 0" and "actions \<noteq> []"
  shows "notify e title body actions urgency tr =
     (case get_active_sessions e tr of
        None \<Rightarrow>
          (tr @ [GetActiveSessions None,
                 Log ERROR ''failed to get active logind session info''], None)
      | Some [] \<Rightarrow> (tr @ [GetActiveSessions (Some [])], None)
      | Some (user # users) \<Rightarrow>
          (case get_xdg_runtime_dir e (tr @ [GetActiveSessions (Some (user # users))])
                  (User user) of
             None \<Rightarrow>
               (tr @ [GetActiveSessions (Some (user # users)),
                      GetXdgRuntimeDir (User user) None,
                      Log ERROR (''failed to get xdg_runtime_dir for user: '' @ Name user)],
                None)
           | Some xdg \<Rightarrow>
               (let argv = [''/usr/bin/sudo'', ''-u'', Name user, ''DISPLAY=:0'',
                            ''DBUS_SESSION_BUS_ADDRESS=unix:path='' @ xdg @ ''/bus'']
                           @ notify_args title body actions urgency;
                    out = subprocess_run e
                            (tr @ [GetActiveSessions (Some (user # users)),
                                   GetXdgRuntimeDir (User user) (Some xdg)]) argv
                in (tr @ [GetActiveSessions (Some (user # users)),
                          GetXdgRuntimeDir (User user) (Some xdg),
                          SubprocessRun argv out],
                    Some out))))"
  using assms
  by (simp add: notify_def Let_def split: option.splits list.splits)

lemma no_subprocess_simps:
  "\<not> is_subprocess (GetActiveSessions r)"
  "\<not> is_subprocess (GetXdgRuntimeDir u d)"
  "\<not> is_subprocess (Log l m)"
  "is_subprocess (SubprocessRun argv out)"
  by (simp_all add: is_subprocess_def)

lemma escalation_simps:
  "is_escalation (SubprocessRun escalation_args out)"
  "is_escalation (SubprocessRun ([''/usr/bin/sudo'', ''-u'', a, b, c] @ escalation_args) out)"
  by (simp_all add: is_escalation_def)

lemma escalation_notify:
  assumes "dbus_notify e"
  obtains evs r where
    "notify e ''System Updater'' ''Update available, but system checks failed. Update now?''
       [''universal-blue-update-confirm=Confirm''] ''critical'' tr = (tr @ evs, r)"
    and "list_all notify_event evs"
    and "list_all is_escalation (filter is_subprocess evs)"
    and "length (filter is_subprocess evs) = (if r = None then 0 else 1)"
proof -
  let ?n = "notify e ''System Updater''
              ''Update available, but system checks failed. Update now?''
              [''universal-blue-update-confirm=Confirm''] ''critical'' tr"
  obtain evs r where n: "?n = (tr @ evs, r)" and ok: "list_all notify_event evs"
    using notify_result by blast
  have acts: "[''universal-blue-update-confirm=Confirm''] \<noteq> []"
    by simp
  have "list_all is_escalation (filter is_subprocess evs)
      \<and> length (filter is_subprocess evs) = (if r = None then 0 else 1)"
  proof (cases "getuid e = 0")
    case False
    with assms n show ?thesis
      by (auto simp: notify_def Let_def no_subprocess_simps escalation_simps
            escalation_args_def [symmetric])
  next
    case root: True
    note unfold = notify_as_root_with_actions [OF assms root acts,
        of "''System Updater''" "''Update available, but system checks failed. Update now?''"
           "''critical''" tr, folded escalation_args_def]
    show ?thesis
    proof (cases "get_active_sessions e tr")
      case None
      with n unfold show ?thesis
        by (auto simp: no_subprocess_simps)
    next
      case (Some sessions)
      show ?thesis
      proof (cases sessions)
        case Nil
        with Some n unfold show ?thesis
          by (auto simp: no_subprocess_simps)
      next
        case (Cons user users)
        show ?thesis
        proof (cases "get_xdg_runtime_dir e (tr @ [GetActiveSessions (Some (user # users))])
                        (User user)")
          case None
          with Some Cons n unfold show ?thesis
            by (auto simp: no_subprocess_simps)
        next
          case xdg: (Some xdg)
          with Some Cons n unfold show ?thesis
            using escalation_simps(2)
            by (auto simp: no_subprocess_simps Let_def)
        qed
      qed
    qed
  qed
  with n ok show ?thesis
    using that by blast
qed

lemma reraise_run_updates:
  "(case run_updates e s available tr of
      (tr1, Return u) \<Rightarrow> (tr1, Raise x0)
    | (tr1, Raise x) \<Rightarrow> (tr1, Raise x)
    | (tr1, Exit n) \<Rightarrow> (tr1, Exit n)) = run_updates e s available tr"
proof -
  obtain tr1 r where run: "run_updates e s available tr = (tr1, r)"
    by (cases "run_updates e s available tr")
  with run_updates_never_returns [of e s available tr "()"] have "r \<noteq> Return ()"
    by simp
  with run show ?thesis
    by (cases r) simp_all
qed

lemma checks_failed_escalating:
  assumes "dbus_notify e"
    and "notify e ''System Updater'' ''Update available, but system checks failed. Update now?''
           [''universal-blue-update-confirm=Confirm''] ''critical''
           (tr @ [Log INFO ''Harware checks failed, but update is available'']) = (tr1, r)"
  shows "hardware_inhibitor_checks_failed e failures False True s tr =
           (if confirmed r then run_updates e s True tr1
            else (tr1, Raise (Exception (gating_message failures))))"
proof (cases r)
  case None
  with assms show ?thesis
    by (simp add: hardware_inhibitor_checks_failed_def ask_for_updates_def confirmed_def)
next
  case (Some out)
  with assms show ?thesis
    by (simp add: hardware_inhibitor_checks_failed_def ask_for_updates_def confirmed_def
          reraise_run_updates)
qed

lemma no_lock_among_notify_events:
  "list_all notify_event evs \<Longrightarrow> \<not> list_ex is_lock_event evs"
  using notify_event_not_lock by (auto simp: list_all_iff list_ex_iff)

section \<open>The claims\<close>

subsection \<open>C1: the lock on the exit paths\<close>

text \<open>
  Claim C1 says that a lock that was acquired is released exactly once on every exit
  path.  \<^verbatim>\<open>release_lock\<close> is called on line 176 only, which the fatal exit of line 133
  does not reach.  The run below, as root with a system pass that ends with status 1,
  acquires the lock, exits with status 1, and its trace holds no \<open>ReleaseLock\<close>.
\<close>

theorem lock_held_at_fatal_exit:
  "run_updates env_system_pass_fails False True []
     = ([AcquireLock ''/run/ublue-update.lock'' (Some 3), TransactionWait,
         GetActiveSessions (Some [alice]),
         SubprocessRun topgrade_system_args \<lparr>returncode = 1, stdout = ''no network''\<rparr>,
         Log DEBUG ''no network'',
         Print ''topgrade returned code 1, program output:'',
         Print ''no network''], Exit 1)
   \<and> filter is_release (fst (run_updates env_system_pass_fails False True [])) = []"
  by (simp add: run_updates_def filelock_path_def run_updates_root_def notify_def
        env_system_pass_fails_def Let_def str_int_def str_nat.simps is_release_def)

subsection \<open>C2: the system-only flag without privilege\<close>




subsection \<open>C3: a failing system pass is fatal\<close>



subsection \<open>C4: the passes of the sessions\<close>




subsection \<open>C5: the escalation\<close>

text \<open>
  Claim C5 says that whenever the inhibitor checks fail, an update is available and
  notifications are enabled, exactly one escalation is dispatched.  Line 80 excludes the
  check-only run, and root's \<^verbatim>\<open>notify\<close> sends nothing when nobody is logged in: in both
  runs below the three conditions hold and no notification is sent.
\<close>

theorem runs_without_escalation:
  "main env_gate (cli_default\<lparr>check := True\<rparr>) []
     = ([SystemUpdateCheck True, CheckHardwareInhibitors True [''battery'', ''network'']],
        Raise (Exception (gating_message [''battery'', ''network''])))
   \<and> main env_gate_root cli_default []
     = (gate_events [''battery'', ''network''] @ [GetActiveSessions (Some [])],
        Raise (Exception (gating_message [''battery'', ''network''])))
   \<and> dbus_notify env_gate \<and> dbus_notify env_gate_root"
  by (simp add: main_def hardware_inhibitor_checks_failed_def ask_for_updates_def notify_def
        env_gate_def env_gate_root_def env_user_def cli_default_def Let_def gate_events_def)

text \<open>
  Claim C5, as amended.  In a run that is not check-only, in which the inhibitor checks
  fail, an update is available and notifications are enabled, \<^verbatim>\<open>notify\<close> is called once
  with the critical escalation that carries the confirm action.  Up to the end of that
  call no lock is asked for.  The call sends at most one notification, an escalation;
  it sends exactly one when it returns a response, and none when it returns none.  When
  the response holds the confirm action, the run goes on as \<^verbatim>\<open>run_updates\<close> with the
  update taken as available, which is the call a forced run makes; otherwise it ends
  with the gating exception.
\<close>

theorem escalation_before_lock:
  assumes on: "dbus_notify e"
    and flags: "\<not> wait cli" "\<not> force cli" "\<not> updatecheck cli" "\<not> check cli"
    and avail: "system_update_check e tr"
    and checks: "check_hardware_inhibitors e (tr @ [SystemUpdateCheck True]) = (True, failures)"
  shows "\<exists>evs r.
           notify e ''System Updater''
             ''Update available, but system checks failed. Update now?''
             [''universal-blue-update-confirm=Confirm''] ''critical''
             (tr @ gate_events failures) = (tr @ gate_events failures @ evs, r)
         \<and> \<not> list_ex is_lock_event (gate_events failures @ evs)
         \<and> list_all is_escalation (filter is_subprocess evs)
         \<and> length (filter is_subprocess evs) = (if r = None then 0 else 1)
         \<and> main e cli tr =
             (if confirmed r
              then run_updates e (system cli) True (tr @ gate_events failures @ evs)
              else (tr @ gate_events failures @ evs,
                    Raise (Exception (gating_message failures))))
         \<and> main e (cli\<lparr>force := True\<rparr>) tr =
             run_updates e (system cli) True
               (tr @ [SystemUpdateCheck True, Log INFO ''System passed all update checks''])"
proof -
  let ?tr2 = "tr @ gate_events failures"
  obtain evs r where n: "notify e ''System Updater''
             ''Update available, but system checks failed. Update now?''
             [''universal-blue-update-confirm=Confirm''] ''critical'' ?tr2 = (?tr2 @ evs, r)"
    and ok: "list_all notify_event evs"
    and esc: "list_all is_escalation (filter is_subprocess evs)"
    and count: "length (filter is_subprocess evs) = (if r = None then 0 else 1)"
    using escalation_notify [OF on, of ?tr2] by blast
  have nolock: "\<not> list_ex is_lock_event (gate_events failures @ evs)"
    using no_lock_among_notify_events [OF ok]
    by (simp add: gate_events_def is_lock_event_def)
  have "main e cli tr =
          hardware_inhibitor_checks_failed e failures False True (system cli)
            (tr @ [SystemUpdateCheck True, CheckHardwareInhibitors True failures])"
    using main_checks_failed [of cli e tr failures] flags avail checks by simp
  also have "\<dots> = (if confirmed r then run_updates e (system cli) True (?tr2 @ evs)
                    else (?tr2 @ evs, Raise (Exception (gating_message failures))))"
    using n by (intro checks_failed_escalating [OF on]) (simp add: gate_events_def)
  finally have gate: "main e cli tr =
             (if confirmed r
              then run_updates e (system cli) True (tr @ gate_events failures @ evs)
              else (tr @ gate_events failures @ evs,
                    Raise (Exception (gating_message failures))))"
    by simp
  have forced: "main e (cli\<lparr>force := True\<rparr>) tr =
             run_updates e (system cli) True
               (tr @ [SystemUpdateCheck True, Log INFO ''System passed all update checks''])"
    using flags avail by (simp add: main_def main_run_def Let_def)
  from n nolock esc count gate forced show ?thesis
    by (intro exI [of _ evs] exI [of _ r]) simp
qed

text \<open>
  The amended claim at user 1000, who confirms: the run sends the escalation, then
  locks, waits, and ends as the forced run does.
\<close>

theorem escalation_before_lock_witness:
  "main env_gate cli_default []
     = (gate_events [''battery'', ''network'']
          @ [SubprocessRun escalation_args
               \<lparr>returncode = 0, stdout = ''universal-blue-update-confirm''\<rparr>,
             IsDir ''/run/user/1000'' True,
             AcquireLock ''/run/user/1000/ublue-update.lock'' (Some 3),
             TransactionWait, ReleaseLock 3],
        Exit 0)
   \<and> main env_gate (cli_default\<lparr>force := True\<rparr>) []
     = ([SystemUpdateCheck True, Log INFO ''System passed all update checks'',
         IsDir ''/run/user/1000'' True,
         AcquireLock ''/run/user/1000/ublue-update.lock'' (Some 3),
         TransactionWait, ReleaseLock 3],
        Exit 0)"
proof -
  let ?failures = "[''battery'', ''network'']"
  let ?out = "\<lparr>returncode = 0, stdout = ''universal-blue-update-confirm''\<rparr>"
  have on: "dbus_notify env_gate"
    by (simp add: env_gate_def env_user_def)
  have flags: "\<not> wait cli_default" "\<not> force cli_default" "\<not> updatecheck cli_default"
    "\<not> check cli_default"
    by (simp_all add: cli_default_def)
  have avail: "system_update_check env_gate []"
    by (simp add: env_gate_def env_user_def)
  have checks: "check_hardware_inhibitors env_gate ([] @ [SystemUpdateCheck True])
                  = (True, ?failures)"
    by (simp add: env_gate_def env_user_def)
  have sent: "notify env_gate ''System Updater''
             ''Update available, but system checks failed. Update now?''
             [''universal-blue-update-confirm=Confirm''] ''critical''
             ([] @ gate_events ?failures)
           = ([] @ gate_events ?failures @ [SubprocessRun escalation_args ?out], Some ?out)"
    by (simp add: notify_def env_gate_def env_user_def Let_def escalation_args_def)
  have yes: "confirmed (Some ?out)"
    by (simp add: confirmed_def)
  have run: "run_updates env_gate False True
               ([] @ gate_events ?failures @ [SubprocessRun escalation_args ?out])
           = (gate_events ?failures
                @ [SubprocessRun escalation_args ?out,
                   IsDir ''/run/user/1000'' True,
                   AcquireLock ''/run/user/1000/ublue-update.lock'' (Some 3),
                   TransactionWait, ReleaseLock 3],
              Exit 0)"
    by (simp add: run_updates_def filelock_path_def env_gate_def env_user_def Let_def)
  have forced: "run_updates env_gate False True
                  ([] @ [SystemUpdateCheck True, Log INFO ''System passed all update checks''])
           = ([SystemUpdateCheck True, Log INFO ''System passed all update checks'',
               IsDir ''/run/user/1000'' True,
               AcquireLock ''/run/user/1000/ublue-update.lock'' (Some 3),
               TransactionWait, ReleaseLock 3],
              Exit 0)"
    by (simp add: run_updates_def filelock_path_def env_gate_def env_user_def Let_def)
  have sys: "system cli_default = False"
    by (simp add: cli_default_def)
  from escalation_before_lock [OF on flags avail checks]
  obtain evs r where
    n: "notify env_gate ''System Updater''
             ''Update available, but system checks failed. Update now?''
             [''universal-blue-update-confirm=Confirm''] ''critical''
             ([] @ gate_events ?failures) = ([] @ gate_events ?failures @ evs, r)"
    and gate: "main env_gate cli_default [] =
             (if confirmed r
              then run_updates env_gate (system cli_default) True
                     ([] @ gate_events ?failures @ evs)
              else ([] @ gate_events ?failures @ evs,
                    Raise (Exception (gating_message ?failures))))"
    and force: "main env_gate (cli_default\<lparr>force := True\<rparr>) [] =
             run_updates env_gate (system cli_default) True
               ([] @ [SystemUpdateCheck True, Log INFO ''System passed all update checks''])"
    by blast
  from n sent have "evs = [SubprocessRun escalation_args ?out]" and "r = Some ?out"
    by simp_all
  with gate yes run have "main env_gate cli_default []
     = (gate_events ?failures
          @ [SubprocessRun escalation_args ?out,
             IsDir ''/run/user/1000'' True,
             AcquireLock ''/run/user/1000/ublue-update.lock'' (Some 3),
             TransactionWait, ReleaseLock 3],
        Exit 0)"
    by (simp add: sys)
  moreover from force forced have "main env_gate (cli_default\<lparr>force := True\<rparr>) []
     = ([SystemUpdateCheck True, Log INFO ''System passed all update checks'',
         IsDir ''/run/user/1000'' True,
         AcquireLock ''/run/user/1000/ublue-update.lock'' (Some 3),
         TransactionWait, ReleaseLock 3],
        Exit 0)"
    by (simp add: sys)
  ultimately show ?thesis
    by simp
qed

subsection \<open>C6: the gated abort\<close>

text \<open>
  Claim C6.  When the inhibitor checks fail and no update is available, or the run only
  checks, the run consists of the update check and the inhibitor checks and ends with
  the gating exception: no notification is sent and no lock is asked for.  The message
  of the exception holds every failure reason.
\<close>

theorem gated_abort_without_escalation:
  assumes "\<not> wait cli" and "\<not> force cli" and "\<not> updatecheck cli"
    and "check_hardware_inhibitors e (tr @ [SystemUpdateCheck (system_update_check e tr)])
           = (True, failures)"
    and "\<not> system_update_check e tr \<or> check cli"
  shows "main e cli tr =
           (tr @ [SystemUpdateCheck (system_update_check e tr),
                  CheckHardwareInhibitors True failures],
            Raise (Exception (gating_message failures)))
       \<and> (\<forall>f \<in> set failures. str_in f (gating_message failures))"
  using assms
  by (auto simp: main_checks_failed hardware_inhibitor_checks_failed_def
        gating_message_holds_each)

text \<open>Claim C6 at a check-only run on battery and on a metered network.\<close>

theorem gated_abort_without_escalation_witness:
  "main env_gate (cli_default\<lparr>check := True\<rparr>) []
     = ([SystemUpdateCheck True, CheckHardwareInhibitors True [''battery'', ''network'']],
        Raise (Exception (''update failed to pass checks: '' @ [newline] @ '' - battery''
                          @ [newline] @ '' - network'')))
   \<and> str_in ''battery'' (gating_message [''battery'', ''network''])
   \<and> str_in ''network'' (gating_message [''battery'', ''network''])"
proof -
  have flags: "\<not> wait (cli_default\<lparr>check := True\<rparr>)" "\<not> force (cli_default\<lparr>check := True\<rparr>)"
    "\<not> updatecheck (cli_default\<lparr>check := True\<rparr>)"
    by (simp_all add: cli_default_def)
  have checks: "check_hardware_inhibitors env_gate
                  ([] @ [SystemUpdateCheck (system_update_check env_gate [])])
                  = (True, [''battery'', ''network''])"
    by (simp add: env_gate_def env_user_def)
  have only: "\<not> system_update_check env_gate [] \<or> check (cli_default\<lparr>check := True\<rparr>)"
    by (simp add: cli_default_def)
  have avail: "system_update_check env_gate [] = True"
    by (simp add: env_gate_def env_user_def)
  from gated_abort_without_escalation [OF flags checks only]
  show ?thesis
    by (simp add: avail gating_message_def)
qed

subsection \<open>C7: notifications disabled\<close>



subsection \<open>C8: a notification with actions, sent by root\<close>

text \<open>
  Claim C8 says that root's \<^verbatim>\<open>notify\<close> with actions goes through the sessions until an
  answer holds a selected action.  Lines 53-54 return the answer of the first session,
  whatever it holds: with the sessions of alice and bob, alice's answer, which selects
  nothing, is returned, and bob, who would confirm, is not asked.
\<close>

theorem first_answer_is_returned:
  "notify env_two_sessions ''System Updater''
      ''Update available, but system checks failed. Update now?''
      [''universal-blue-update-confirm=Confirm''] ''critical'' []
     = ([GetActiveSessions (Some [alice, bob]),
         GetXdgRuntimeDir 1000 (Some ''/run/user/1000''),
         SubprocessRun
           ([''/usr/bin/sudo'', ''-u'', ''alice'', ''DISPLAY=:0'',
             ''DBUS_SESSION_BUS_ADDRESS=unix:path=/run/user/1000/bus''] @ escalation_args)
           \<lparr>returncode = 0, stdout = []\<rparr>],
        Some \<lparr>returncode = 0, stdout = []\<rparr>)
   \<and> \<not> confirmed (Some \<lparr>returncode = 0, stdout = []\<rparr>)
   \<and> confirmed (Some (subprocess_run env_two_sessions []
         ([''/usr/bin/sudo'', ''-u'', ''bob'', ''DISPLAY=:0'',
           ''DBUS_SESSION_BUS_ADDRESS=unix:path=/run/user/1001/bus''] @ escalation_args)))"
  by (simp add: notify_def env_two_sessions_def alice_def bob_def Let_def escalation_args_def
        notify_args_def confirmed_def)

text \<open>
  Claim C8, as amended.  When \<^verbatim>\<open>notify\<close> is invoked as root, with notifications enabled
  and a non-empty action list, it makes at most one notification round-trip.  When it
  returns a response, there is a first resolved session, the round-trip went to that
  session and the response is its answer, whether or not an action was selected; no
  other session is asked.  When it returns no response (no session, or the first
  session's runtime directory not found), no notification was sent.
\<close>

theorem root_notify_with_actions:
  assumes "dbus_notify e" and "getuid e = 0" and "actions \<noteq> []"
    and "notify e title body actions urgency tr = (tr', r)"
  shows "\<exists>evs. tr' = tr @ evs
           \<and> length (filter is_subprocess evs) \<le> 1
           \<and> (case r of
                None \<Rightarrow> \<not> list_ex is_subprocess evs
              | Some out \<Rightarrow>
                  (\<exists>user users xdg.
                     evs = [GetActiveSessions (Some (user # users)),
                            GetXdgRuntimeDir (User user) (Some xdg),
                            SubprocessRun
                              ([''/usr/bin/sudo'', ''-u'', Name user, ''DISPLAY=:0'',
                                ''DBUS_SESSION_BUS_ADDRESS=unix:path='' @ xdg @ ''/bus'']
                               @ notify_args title body actions urgency) out]))"
proof (cases "get_active_sessions e tr")
  case None
  with assms show ?thesis
    by (auto simp: notify_as_root_with_actions no_subprocess_simps)
next
  case (Some sessions)
  show ?thesis
  proof (cases sessions)
    case Nil
    with Some assms show ?thesis
      by (auto simp: notify_as_root_with_actions no_subprocess_simps)
  next
    case (Cons user users)
    show ?thesis
    proof (cases "get_xdg_runtime_dir e (tr @ [GetActiveSessions (Some (user # users))])
                    (User user)")
      case None
      with Some Cons assms show ?thesis
        by (auto simp: notify_as_root_with_actions no_subprocess_simps)
    next
      case xdg: (Some xdg)
      with Some Cons assms show ?thesis
        by (auto simp: notify_as_root_with_actions no_subprocess_simps Let_def)
    qed
  qed
qed

text \<open>The amended claim at the sessions of alice and bob.\<close>

theorem root_notify_with_actions_witness:
  "notify env_two_sessions ''System Updater''
      ''Update available, but system checks failed. Update now?''
      [''universal-blue-update-confirm=Confirm''] ''critical'' []
     = ([GetActiveSessions (Some [alice, bob]),
         GetXdgRuntimeDir 1000 (Some ''/run/user/1000''),
         SubprocessRun
           ([''/usr/bin/sudo'', ''-u'', ''alice'', ''DISPLAY=:0'',
             ''DBUS_SESSION_BUS_ADDRESS=unix:path=/run/user/1000/bus''] @ escalation_args)
           \<lparr>returncode = 0, stdout = []\<rparr>],
        Some \<lparr>returncode = 0, stdout = []\<rparr>)
   \<and> length (filter is_subprocess
         (fst (notify env_two_sessions ''System Updater''
                 ''Update available, but system checks failed. Update now?''
                 [''universal-blue-update-confirm=Confirm''] ''critical'' []))) \<le> 1"
proof -
  have on: "dbus_notify env_two_sessions" and root: "getuid env_two_sessions = 0"
    by (simp_all add: env_two_sessions_def)
  have acts: "[''universal-blue-update-confirm=Confirm''] \<noteq> []"
    by simp
  have run: "notify env_two_sessions ''System Updater''
      ''Update available, but system checks failed. Update now?''
      [''universal-blue-update-confirm=Confirm''] ''critical'' []
     = ([GetActiveSessions (Some [alice, bob]),
         GetXdgRuntimeDir 1000 (Some ''/run/user/1000''),
         SubprocessRun
           ([''/usr/bin/sudo'', ''-u'', ''alice'', ''DISPLAY=:0'',
             ''DBUS_SESSION_BUS_ADDRESS=unix:path=/run/user/1000/bus''] @ escalation_args)
           \<lparr>returncode = 0, stdout = []\<rparr>],
        Some \<lparr>returncode = 0, stdout = []\<rparr>)"
    by (simp add: notify_def env_two_sessions_def alice_def bob_def Let_def
        escalation_args_def notify_args_def)
  from root_notify_with_actions [OF on root acts run]
  obtain evs where "[GetActiveSessions (Some [alice, bob]),
         GetXdgRuntimeDir 1000 (Some ''/run/user/1000''),
         SubprocessRun
           ([''/usr/bin/sudo'', ''-u'', ''alice'', ''DISPLAY=:0'',
             ''DBUS_SESSION_BUS_ADDRESS=unix:path=/run/user/1000/bus''] @ escalation_args)
           \<lparr>returncode = 0, stdout = []\<rparr>] = [] @ evs"
    and "length (filter is_subprocess evs) \<le> 1"
    by blast
  then show ?thesis
    unfolding run by simp
qed

subsection \<open>C9: the path of the lock file\<close>

text \<open>
  Claim C9 says that every caller who is not root locks a path under the runtime
  directory.  Line 94 guards that choice with \<^verbatim>\<open>os.path.isdir\<close>: user 1000 below, whose
  \<^verbatim>\<open>XDG_RUNTIME_DIR\<close> names no directory, locks the system path.
\<close>

theorem user_without_directory_locks_system_path:
  "run_updates env_user_no_dir False True []
     = ([IsDir ''/run/user/1000'' False,
         AcquireLock ''/run/ublue-update.lock'' (Some 3),
         TransactionWait, ReleaseLock 3], Exit 0)
   \<and> getuid env_user_no_dir = 1000
   \<and> environ_xdg_runtime_dir env_user_no_dir = Some ''/run/user/1000''"
  by (simp add: run_updates_def filelock_path_def env_user_no_dir_def env_user_def Let_def)

text \<open>
  Claim C9, as amended.  Whatever lock a run asks for, its path is the fixed system path
  when the process is root; for any other caller \<^verbatim>\<open>XDG_RUNTIME_DIR\<close> is set, and the
  path lies under it when it names a directory and is the fixed system path when it does
  not.
\<close>

theorem lock_path_by_scope:
  assumes run: "run_updates e s available tr = (tr @ evs, res)"
    and lock: "AcquireLock p r \<in> set evs"
  shows "(getuid e = 0 \<longrightarrow> p = ''/run/ublue-update.lock'')
       \<and> (getuid e \<noteq> 0 \<longrightarrow>
            (\<exists>d. environ_xdg_runtime_dir e = Some d
               \<and> p = (if isdir e tr d then d @ ''/ublue-update.lock''
                      else ''/run/ublue-update.lock'')))"
proof (cases "getuid e = 0")
  case False
  show ?thesis
  proof (cases "environ_xdg_runtime_dir e")
    case None
    with False run lock show ?thesis
      by (simp add: run_updates_as_user)
  next
    case (Some d)
    let ?path = "if isdir e tr d then d @ ''/ublue-update.lock'' else ''/run/ublue-update.lock''"
    have "p = ?path"
    proof (cases "acquire_lock e (tr @ [IsDir d (isdir e tr d)]) ?path")
      case None
      with False Some run have "evs = [IsDir d (isdir e tr d), AcquireLock ?path None]"
        by (simp add: run_updates_as_user Let_def)
      with lock show ?thesis by simp
    next
      case fd: (Some fd)
      with False Some run
      have "set evs \<subseteq> {IsDir d (isdir e tr d), AcquireLock ?path (Some fd),
                         TransactionWait, ReleaseLock fd}"
        by (cases s) (auto simp: run_updates_as_user Let_def)
      with lock show ?thesis by auto
    qed
    with False Some show ?thesis by simp
  qed
next
  case root: True
  have "p = ''/run/ublue-update.lock''"
  proof (cases "acquire_lock e tr ''/run/ublue-update.lock''")
    case None
    with root run have "evs = [AcquireLock ''/run/ublue-update.lock'' None]"
      by (simp add: run_updates_as_root)
    with lock show ?thesis by simp
  next
    case (Some fd)
    let ?tr2 = "tr @ [AcquireLock ''/run/ublue-update.lock'' (Some fd), TransactionWait]"
    show ?thesis
    proof (cases rule: run_updates_root_result [of e s available ?tr2])
      case (fatal pre out)
      with root run Some
      have "set evs \<subseteq> {AcquireLock ''/run/ublue-update.lock'' (Some fd), TransactionWait,
                         SubprocessRun topgrade_system_args out, Log DEBUG (stdout out),
                         Print (''topgrade returned code '' @ str_int (returncode out)
                                @ '', program output:''),
                         Print (stdout out)} \<union> set pre"
        by (auto simp: run_updates_as_root)
      with lock no_lock_event_among(1) [OF fatal(1), of p r] show ?thesis
        by blast
    next
      case (passed pre out mid post r')
      from passed(5,6) root run Some
      have "set evs \<subseteq> {AcquireLock ''/run/ublue-update.lock'' (Some fd), TransactionWait,
                         SubprocessRun topgrade_system_args out, Log DEBUG (stdout out),
                         ReleaseLock fd}
                      \<union> set pre \<union> set mid \<union> set post"
        by (auto simp: run_updates_as_root)
      with lock no_lock_event_among(1) [OF passed(1), of p r]
        no_lock_event_among(2) [OF passed(3), of p r]
        no_lock_event_among(3) [OF passed(4), of p r]
      show ?thesis by blast
    qed
  qed
  with root show ?thesis by simp
qed

text \<open>
  The amended claim at the run of user 1000 with an existing runtime directory.
\<close>

theorem lock_path_by_scope_witness:
  "getuid env_user \<noteq> 0
   \<and> environ_xdg_runtime_dir env_user = Some ''/run/user/1000''
   \<and> isdir env_user [] ''/run/user/1000''
   \<and> run_updates env_user False True []
     = ([IsDir ''/run/user/1000'' True,
         AcquireLock ''/run/user/1000/ublue-update.lock'' (Some 3),
         TransactionWait, ReleaseLock 3], Exit 0)"
proof -
  have run: "run_updates env_user False True []
     = ([] @ [IsDir ''/run/user/1000'' True,
         AcquireLock ''/run/user/1000/ublue-update.lock'' (Some 3),
         TransactionWait, ReleaseLock 3], Exit 0)"
    by (simp add: run_updates_def filelock_path_def env_user_def Let_def)
  have lock: "AcquireLock ''/run/user/1000/ublue-update.lock'' (Some 3)
                \<in> set [IsDir ''/run/user/1000'' True,
                        AcquireLock ''/run/user/1000/ublue-update.lock'' (Some 3),
                        TransactionWait, ReleaseLock 3]"
    by simp
  have uid: "getuid env_user \<noteq> 0"
    by (simp add: env_user_def)
  from lock_path_by_scope [OF run lock] uid
  have "\<exists>d. environ_xdg_runtime_dir env_user = Some d
        \<and> ''/run/user/1000/ublue-update.lock''
            = (if isdir env_user [] d then d @ ''/ublue-update.lock''
               else ''/run/ublue-update.lock'')"
    by blast
  then have "environ_xdg_runtime_dir env_user = Some ''/run/user/1000''
             \<and> isdir env_user [] ''/run/user/1000''"
    by (auto split: if_splits)
  with uid run show ?thesis
    by simp
qed

subsection \<open>C10: a user's run without the system-only flag\<close>

text \<open>
  Claim C10 says that every such run acquires the lock, waits, releases the lock and
  exits with status 0.  When another instance holds the lock, line 98 raises instead.
\<close>

theorem user_run_lock_contention:
  "run_updates env_user_locked False True []
     = ([IsDir ''/run/user/1000'' True,
         AcquireLock ''/run/user/1000/ublue-update.lock'' None],
        Raise (Exception ''updates are already running for this user''))
   \<and> getuid env_user_locked = 1000"
  by (simp add: run_updates_def filelock_path_def env_user_locked_def env_user_def Let_def)

text \<open>
  Claim C10, as amended.  A run without the system-only flag for a caller who is not
  root starts no subprocess (no update tool, no notification); when it acquires the
  lock, its events are exactly the directory test, the acquisition, the transaction wait
  and the release of that lock, and the process exits with status 0.
\<close>

theorem user_run_without_system_flag:
  assumes "getuid e \<noteq> 0"
    and "run_updates e False available tr = (tr', res)"
  shows "\<exists>evs. tr' = tr @ evs
           \<and> \<not> list_ex is_subprocess evs
           \<and> (\<forall>p fd. AcquireLock p (Some fd) \<in> set evs \<longrightarrow>
                 res = Exit 0
                 \<and> (\<exists>d b. evs = [IsDir d b, AcquireLock p (Some fd), TransactionWait,
                                  ReleaseLock fd]))"
  using assms
  by (auto simp: run_updates_as_user Let_def is_subprocess_def split: option.splits)

text \<open>
  The amended claim at the run of user 1000.
\<close>

theorem user_run_without_system_flag_witness:
  "getuid env_user \<noteq> 0
   \<and> run_updates env_user False True []
     = ([IsDir ''/run/user/1000'' True,
         AcquireLock ''/run/user/1000/ublue-update.lock'' (Some 3),
         TransactionWait, ReleaseLock 3], Exit 0)
   \<and> \<not> list_ex is_subprocess (fst (run_updates env_user False True []))"
proof -
  have uid: "getuid env_user \<noteq> 0"
    by (simp add: env_user_def)
  have run: "run_updates env_user False True []
     = ([IsDir ''/run/user/1000'' True,
         AcquireLock ''/run/user/1000/ublue-update.lock'' (Some 3),
         TransactionWait, ReleaseLock 3], Exit 0)"
    by (simp add: run_updates_def filelock_path_def env_user_def Let_def)
  from user_run_without_system_flag [OF uid run]
  have "\<not> list_ex is_subprocess [IsDir ''/run/user/1000'' True,
         AcquireLock ''/run/user/1000/ublue-update.lock'' (Some 3),
         TransactionWait, ReleaseLock 3]"
    by auto
  with uid run show ?thesis
    by simp
qed

end
